theory Spec2Isabelle
  imports Main
begin

section \<open>JavaScript values and errors\<close>

text \<open>
  The library moves decoded JSON between the HTTP utility and its callers. A decoded value
  is a \<open>jsval\<close>. An object keeps its entries in insertion order; a decoded record has each
  key once, and a lookup takes the first entry of a key. Numbers are the integers (the
  program only copies numbers and tests them for truthiness; fractions and NaN are not
  represented).
\<close>

datatype jsval =
    JUndefined
  | JNull
  | JBool bool
  | JNum int
  | JStr string
  | JArr "jsval list"
  | JObj "(string \<times> jsval) list"

type_synonym RawObject = "(string \<times> jsval) list"

text \<open>
  What a \<open>throw\<close> carries: a value rejected by a collaborator (the HTTP utility, a manager
  of the top-level client), the \<open>TypeError\<close> of the language itself (a property read on
  \<open>undefined\<close> or \<open>null\<close>, a call of something that is no function), or the library's
  \<open>UnexpectedError\<close> wrapping a cause.
\<close>

datatype err =
    Thrown jsval
  | TypeError
  | UnexpectedError err

text \<open>Truthiness, as \<open>||\<close> tests it.\<close>

fun truthy :: "jsval \<Rightarrow> bool" where
  "truthy JUndefined = False"
| "truthy JNull = False"
| "truthy (JBool b) = b"
| "truthy (JNum n) = (n \<noteq> 0)"
| "truthy (JStr s) = (s \<noteq> [])"
| "truthy (JArr xs) = True"
| "truthy (JObj kvs) = True"

text \<open>\<open>a || b\<close>, for a right operand without effects (a literal, everywhere in this program).\<close>

definition js_or :: "jsval \<Rightarrow> jsval \<Rightarrow> jsval" where
  "js_or a b = (if truthy a then a else b)"

text \<open>
  \<open>lookup kvs k\<close> is the read \<open>o.k\<close> on an object \<open>o\<close> with the entries \<open>kvs\<close>.
  \<open>get_prop v k\<close> is the property read \<open>v.k\<close> on any value. It throws on \<open>undefined\<close>
  and \<open>null\<close>, finds an object's entry or \<open>undefined\<close>, and gives \<open>undefined\<close> on every
  other value: the keys this program reads are none of the built-in properties of strings
  and arrays (\<open>length\<close>, indices, methods).
\<close>

definition lookup :: "RawObject \<Rightarrow> string \<Rightarrow> jsval" where
  "lookup kvs k = (case map_of kvs k of None \<Rightarrow> JUndefined | Some v \<Rightarrow> v)"

fun get_prop :: "jsval \<Rightarrow> string \<Rightarrow> err + jsval" where
  "get_prop JUndefined k = Inl TypeError"
| "get_prop JNull k = Inl TypeError"
| "get_prop (JObj kvs) k = Inr (lookup kvs k)"
| "get_prop v k = Inr JUndefined"

text \<open>
  \<open>k in v\<close>, for a key that is no inherited property and no array index (\<open>'popularity'\<close> is
  the only key the program tests): true exactly on an object holding the key, false on an
  array, a \<open>TypeError\<close> on everything that is not an object.
\<close>

fun has_key :: "string \<Rightarrow> jsval \<Rightarrow> err + bool" where
  "has_key k (JObj kvs) = Inr (k \<in> set (map fst kvs))"
| "has_key k (JArr xs) = Inr False"
| "has_key k v = Inl TypeError"

text \<open>\<open>v[0]\<close>: the first element of an array, the first character of a string, the entry
  \<open>'0'\<close> of an object; \<open>undefined\<close> where there is none; a \<open>TypeError\<close> on \<open>undefined\<close> and
  \<open>null\<close>.\<close>

fun index0 :: "jsval \<Rightarrow> err + jsval" where
  "index0 JUndefined = Inl TypeError"
| "index0 JNull = Inl TypeError"
| "index0 (JArr []) = Inr JUndefined"
| "index0 (JArr (x # xs)) = Inr x"
| "index0 (JStr []) = Inr JUndefined"
| "index0 (JStr (c # cs)) = Inr (JStr [c])"
| "index0 (JObj kvs) = Inr (lookup kvs ''0'')"
| "index0 v = Inr JUndefined"

text \<open>\<open>ids.join(sep)\<close> on an array of strings.\<close>

fun join :: "string \<Rightarrow> string list \<Rightarrow> string" where
  "join sep [] = []"
| "join sep [x] = x"
| "join sep (x # y # ys) = x @ sep @ join sep (y # ys)"

text \<open>
  \<open>s.split(c)\<close> on a string, for a separator of one character: how a reader of a
  comma-separated parameter gets the ids back. It is used only to state what \<open>join\<close>
  sends.
\<close>

fun split_on :: "char \<Rightarrow> string \<Rightarrow> string list" where
  "split_on c [] = [[]]"
| "split_on c (x # xs) =
     (if x = c then [] # split_on c xs
      else (case split_on c xs of [] \<Rightarrow> [[x]] | y # ys \<Rightarrow> (x # y) # ys))"

text \<open>Sequencing of steps that may throw, and \<open>try { ... } catch (e) { ... }\<close>.\<close>

definition then_err :: "err + 'a \<Rightarrow> ('a \<Rightarrow> err + 'b) \<Rightarrow> err + 'b" where
  "then_err r k = (case r of Inl e \<Rightarrow> Inl e | Inr x \<Rightarrow> k x)"

definition try_catch :: "err + 'a \<Rightarrow> (err \<Rightarrow> err + 'a) \<Rightarrow> err + 'a" where
  "try_catch r handler = (case r of Inl e \<Rightarrow> handler e | Inr x \<Rightarrow> Inr x)"

text \<open>\<open>xs.map(f)\<close> with an \<open>f\<close> that may throw: the first throw ends the whole map.\<close>

fun map_err :: "('a \<Rightarrow> err + 'b) \<Rightarrow> 'a list \<Rightarrow> err + 'b list" where
  "map_err f [] = Inr []"
| "map_err f (x # xs) = then_err (f x) (\<lambda>y. then_err (map_err f xs) (\<lambda>ys. Inr (y # ys)))"

section \<open>The top-level client, as the two classes use it\<close>

text \<open>
  \<open>Client\<close> is not among the sources; the classes reach the outside world only through
  its members. Each member is a parameter here: a function of its arguments and of the
  state \<open>'w\<close> of the world outside (the remote service, the client's caches), giving what
  the awaited call resolves to (\<open>Inr\<close>) or rejects with (\<open>Inl\<close>), and the world after.
  \<open>util_fetch path options\<close> is \<open>client.util.fetch(path, options)\<close>, with \<open>JUndefined\<close> for
  an omitted \<open>options\<close>; \<open>playlists_userFollows id user\<close> is
  \<open>client.playlists.userFollows(id, user)\<close>.
\<close>

record 'w Client =
  util_fetch :: "string \<Rightarrow> jsval \<Rightarrow> 'w \<Rightarrow> (err + jsval) \<times> 'w"
  playlists_userFollows :: "string \<Rightarrow> jsval \<Rightarrow> 'w \<Rightarrow> (err + jsval) \<times> 'w"

section \<open>Artist\<close>

text \<open>
  The fields of \<open>Artist\<close>, in the order of the class. The optional fields
  (\<open>totalFollowers\<close>, \<open>genres\<close>, \<open>popularity\<close>) read as \<open>undefined\<close> while unassigned, so
  an unassigned one holds \<open>JUndefined\<close>. At run time a field holds whatever the record
  held, so every copied field is a \<open>jsval\<close>.
\<close>

record 'c Artist =
  data :: jsval
  client :: 'c
  externalUrls :: jsval
  href :: jsval
  id :: jsval
  name :: jsval
  type :: jsval
  uri :: jsval
  images :: jsval
  simplified :: bool
  totalFollowers :: jsval
  genres :: jsval
  popularity :: jsval

text \<open>
  \<open>new Artist(data, client)\<close>. The reads follow the statements of the constructor one by
  one; a throw leaves no object.
\<close>

definition Artist_constructor :: "jsval \<Rightarrow> 'c \<Rightarrow> err + 'c Artist" where
  "Artist_constructor data0 client0 =
     then_err (get_prop data0 ''external_urls'') (\<lambda>external_urls.
     then_err (get_prop data0 ''href'') (\<lambda>href0.
     then_err (get_prop data0 ''id'') (\<lambda>id0.
     then_err (get_prop data0 ''name'') (\<lambda>name0.
     then_err (get_prop data0 ''type'') (\<lambda>type0.
     then_err (get_prop data0 ''uri'') (\<lambda>uri0.
     then_err (get_prop data0 ''images'') (\<lambda>images0.
     then_err (has_key ''popularity'' data0) (\<lambda>full.
       if full then
         then_err (get_prop data0 ''followers'') (\<lambda>followers.
         then_err (get_prop followers ''total'') (\<lambda>total0.
         then_err (get_prop data0 ''genres'') (\<lambda>genres0.
         then_err (get_prop data0 ''popularity'') (\<lambda>popularity0.
           Inr \<lparr> Artist.data = data0, Artist.client = client0,
                 Artist.externalUrls = external_urls, Artist.href = href0,
                 Artist.id = id0, Artist.name = name0, Artist.type = type0,
                 Artist.uri = uri0, Artist.images = js_or images0 (JArr []),
                 Artist.simplified = False, Artist.totalFollowers = total0,
                 Artist.genres = genres0, Artist.popularity = popularity0 \<rparr>))))
       else
         Inr \<lparr> Artist.data = data0, Artist.client = client0,
               Artist.externalUrls = external_urls, Artist.href = href0,
               Artist.id = id0, Artist.name = name0, Artist.type = type0,
               Artist.uri = uri0, Artist.images = js_or images0 (JArr []),
               Artist.simplified = True, Artist.totalFollowers = JUndefined,
               Artist.genres = JUndefined, Artist.popularity = JUndefined \<rparr>))))))))"




section \<open>UserClient\<close>

text \<open>
  The fields of \<open>UserClient\<close>, in the order of the class. The declared types are erased at
  run time: \<open>info()\<close> stores what the payload holds, so each profile field is a \<open>jsval\<close>.
\<close>

record 'w UserClient =
  client :: "'w Client"
  name :: jsval
  country :: jsval
  email :: jsval
  externalUrls :: jsval
  totalFollowers :: jsval
  href :: jsval
  id :: jsval
  images :: jsval
  product :: jsval
  uri :: jsval

text \<open>
  \<open>new UserClient(token)\<close>: \<open>token\<close> is a string (\<open>Inl\<close>) or a client (\<open>Inr\<close>);
  \<open>newClient\<close> stands for \<open>new Client(token)\<close>, whose class is not among the sources.
\<close>

definition UserClient_constructor :: "(string \<Rightarrow> 'w Client) \<Rightarrow> string + 'w Client \<Rightarrow> 'w UserClient" where
  "UserClient_constructor newClient token =
     \<lparr> UserClient.client = (case token of Inl t \<Rightarrow> newClient t | Inr c \<Rightarrow> c),
       UserClient.name = JStr '''',
       UserClient.country = JStr '''',
       UserClient.email = JStr ''unknown'',
       UserClient.externalUrls = JObj [],
       UserClient.totalFollowers = JNum 0,
       UserClient.href = JStr '''',
       UserClient.id = JStr '''',
       UserClient.images = JArr [],
       UserClient.product = JStr ''unknown'',
       UserClient.uri = JStr '''' \<rparr>"

text \<open>
  One assignment \<open>this.f = rhs\<close> of a sequence: when the right-hand side throws, the
  sequence ends there and the assignments made so far stay.
\<close>

definition assign ::
  "(jsval \<Rightarrow> 's \<Rightarrow> 's) \<Rightarrow> err + jsval \<Rightarrow> ('s \<Rightarrow> (err + unit) \<times> 's) \<Rightarrow> 's \<Rightarrow> (err + unit) \<times> 's" where
  "assign set_field rhs rest s =
     (case rhs of Inl e \<Rightarrow> (Inl e, s) | Inr v \<Rightarrow> rest (set_field v s))"

text \<open>The ten assignments of \<open>info()\<close>, in the order of the source.\<close>

definition info_assignments :: "jsval \<Rightarrow> 'w UserClient \<Rightarrow> (err + unit) \<times> 'w UserClient" where
  "info_assignments data0 =
     assign (\<lambda>v t. t\<lparr>UserClient.name := v\<rparr>) (get_prop data0 ''display_name'')
    (assign (\<lambda>v t. t\<lparr>UserClient.country := v\<rparr>)
       (then_err (get_prop data0 ''country'') (\<lambda>v. Inr (js_or v (JStr ''unknown''))))
    (assign (\<lambda>v t. t\<lparr>UserClient.id := v\<rparr>) (get_prop data0 ''id'')
    (assign (\<lambda>v t. t\<lparr>UserClient.email := v\<rparr>)
       (then_err (get_prop data0 ''email'') (\<lambda>v. Inr (js_or v (JStr ''unknown''))))
    (assign (\<lambda>v t. t\<lparr>UserClient.externalUrls := v\<rparr>) (get_prop data0 ''external_urls'')
    (assign (\<lambda>v t. t\<lparr>UserClient.totalFollowers := v\<rparr>)
       (then_err (get_prop data0 ''followers'') (\<lambda>followers. get_prop followers ''total''))
    (assign (\<lambda>v t. t\<lparr>UserClient.href := v\<rparr>) (get_prop data0 ''href'')
    (assign (\<lambda>v t. t\<lparr>UserClient.images := v\<rparr>) (get_prop data0 ''images'')
    (assign (\<lambda>v t. t\<lparr>UserClient.product := v\<rparr>)
       (then_err (get_prop data0 ''product'') (\<lambda>v. Inr (js_or v (JStr ''unknown''))))
    (assign (\<lambda>v t. t\<lparr>UserClient.uri := v\<rparr>) (get_prop data0 ''uri'')
       (\<lambda>t. (Inr (), t)))))))))))"

text \<open>
  \<open>info()\<close>. It returns \<open>this\<close>: the result is \<open>Inr ()\<close> and the client after the call is
  the second component. Whatever is thrown in the \<open>try\<close> block is rethrown inside an
  \<open>UnexpectedError\<close>; the client keeps the assignments made before the throw.
\<close>

definition UserClient_info ::
  "'w UserClient \<Rightarrow> 'w \<Rightarrow> (err + unit) \<times> 'w UserClient \<times> 'w" where
  "UserClient_info this w =
     (case util_fetch (UserClient.client this) ''/me'' JUndefined w of
        (Inl e, w') \<Rightarrow> (Inl (UnexpectedError e), this, w')
      | (Inr data0, w') \<Rightarrow>
          (case info_assignments data0 this of
             (Inl e, this') \<Rightarrow> (Inl (UnexpectedError e), this', w')
           | (Inr u, this') \<Rightarrow> (Inr u, this', w')))"

subsection \<open>Paging envelopes\<close>

record 'e Paging =
  limit :: jsval
  offset :: jsval
  total :: jsval
  items :: "'e list"

text \<open>
  What a list method returns: the envelope it builds, or the value of \<open>handleError(e)\<close>
  when that value is truthy.
\<close>

datatype 'e listing = Envelope "'e Paging" | Handled jsval

text \<open>\<open>v.map(f)\<close>: only an array has a \<open>map\<close> to call.\<close>

fun js_map :: "(jsval \<Rightarrow> err + 'e) \<Rightarrow> jsval \<Rightarrow> err + 'e list" where
  "js_map f (JArr xs) = map_err f xs"
| "js_map f v = Inl TypeError"

text \<open>
  The object literal
  \<open>{limit: r.limit, offset: r.offset, total: r.total, items: r.items.map(x => new E(x, client))}\<close>
  that the four list methods build, with \<open>new_entity\<close> for the entity's constructor.
\<close>

definition paging_literal :: "(jsval \<Rightarrow> err + 'e) \<Rightarrow> jsval \<Rightarrow> err + 'e Paging" where
  "paging_literal new_entity r =
     then_err (get_prop r ''limit'') (\<lambda>limit0.
     then_err (get_prop r ''offset'') (\<lambda>offset0.
     then_err (get_prop r ''total'') (\<lambda>total0.
     then_err (get_prop r ''items'') (\<lambda>items0.
     then_err (js_map new_entity items0) (\<lambda>entities.
       Inr \<lparr> Paging.limit = limit0, Paging.offset = offset0, Paging.total = total0,
             Paging.items = entities \<rparr>)))))"

definition zero_paging :: "'e Paging" where
  "zero_paging = \<lparr> Paging.limit = JNum 0, Paging.offset = JNum 0, Paging.total = JNum 0,
                   Paging.items = [] \<rparr>"

text \<open>
  The two \<open>catch\<close> blocks of the class: \<open>return handleError(e) || fallback\<close> for a method
  that returns a plain value, and the same with the zero-valued envelope for a list
  method. \<open>handleError\<close> (module \<open>Errors\<close>, not among the sources) is a parameter: it
  returns a value or throws.
\<close>

definition or_value :: "(err \<Rightarrow> err + jsval) \<Rightarrow> jsval \<Rightarrow> err \<Rightarrow> err + jsval" where
  "or_value handleError fallback e = then_err (handleError e) (\<lambda>v. Inr (js_or v fallback))"

definition or_zero_paging :: "(err \<Rightarrow> err + jsval) \<Rightarrow> err \<Rightarrow> err + 'e listing" where
  "or_zero_paging handleError e =
     then_err (handleError e) (\<lambda>v. Inr (if truthy v then Handled v else Envelope zero_paging))"

subsection \<open>The list methods\<close>

text \<open>
  An \<open>options\<close> argument is an object or is omitted (\<open>None\<close>), as its declared type says.
  \<open>newTrack\<close> and \<open>newAlbum\<close> stand for the constructors of \<open>Track\<close> and \<open>Album\<close>, which
  are not among the sources; like \<open>new Artist\<close> they may throw. Every method takes the
  world before its one request and gives the world after it.
\<close>

definition UserClient_getTopTracks ::
  "(jsval \<Rightarrow> 'w Client \<Rightarrow> err + 't) \<Rightarrow> (err \<Rightarrow> err + jsval) \<Rightarrow> 'w UserClient \<Rightarrow>
   RawObject option \<Rightarrow> 'w \<Rightarrow> (err + 't listing) \<times> 'w" where
  "UserClient_getTopTracks newTrack handleError this options w =
     (let options1 = (case options of None \<Rightarrow> [] | Some ob \<Rightarrow> ob) in
      case util_fetch (UserClient.client this) ''/me/top/tracks''
             (JObj [(''params'', JObj options1)]) w of
        (r, w') \<Rightarrow>
          (try_catch
             (then_err r (\<lambda>tracks.
              then_err (paging_literal (\<lambda>x. newTrack x (UserClient.client this)) tracks)
                (\<lambda>p. Inr (Envelope p))))
             (or_zero_paging handleError), w'))"

definition UserClient_getTopArtists ::
  "(err \<Rightarrow> err + jsval) \<Rightarrow> 'w UserClient \<Rightarrow> RawObject option \<Rightarrow> 'w \<Rightarrow>
   (err + 'w Client Artist listing) \<times> 'w" where
  "UserClient_getTopArtists handleError this options w =
     (let options1 = (case options of None \<Rightarrow> [] | Some ob \<Rightarrow> ob) in
      case util_fetch (UserClient.client this) ''/me/top/artists''
             (JObj [(''params'', JObj options1)]) w of
        (r, w') \<Rightarrow>
          (try_catch
             (then_err r (\<lambda>artists.
              then_err (paging_literal (\<lambda>x. Artist_constructor x (UserClient.client this)) artists)
                (\<lambda>p. Inr (Envelope p))))
             (or_zero_paging handleError), w'))"

text \<open>
  \<open>{...options, type: 'artist'}\<close>: the entries of \<open>options\<close> (none when it is omitted),
  then \<open>type\<close>, which replaces the value of a \<open>type\<close> entry already there.
\<close>

fun set_key :: "string \<Rightarrow> jsval \<Rightarrow> RawObject \<Rightarrow> RawObject" where
  "set_key k v [] = [(k, v)]"
| "set_key k v ((k', v') # kvs) =
     (if k' = k then (k, v) # kvs else (k', v') # set_key k v kvs)"

definition UserClient_getFollowingArtists ::
  "(err \<Rightarrow> err + jsval) \<Rightarrow> 'w UserClient \<Rightarrow> RawObject option \<Rightarrow> 'w \<Rightarrow>
   (err + 'w Client Artist listing) \<times> 'w" where
  "UserClient_getFollowingArtists handleError this options w =
     (case util_fetch (UserClient.client this) ''/me/following''
             (JObj [(''params'',
                JObj (set_key ''type'' (JStr ''artist'')
                  (case options of None \<Rightarrow> [] | Some ob \<Rightarrow> ob)))]) w of
        (r, w') \<Rightarrow>
          (try_catch
             (then_err r (\<lambda>response.
              then_err (get_prop response ''artists'') (\<lambda>artists.
              then_err (paging_literal (\<lambda>x. Artist_constructor x (UserClient.client this)) artists)
                (\<lambda>p. Inr (Envelope p)))))
             (or_zero_paging handleError), w'))"

definition UserClient_getAlbums ::
  "(jsval \<Rightarrow> 'w Client \<Rightarrow> err + 'al) \<Rightarrow> (err \<Rightarrow> err + jsval) \<Rightarrow> 'w UserClient \<Rightarrow>
   RawObject option \<Rightarrow> 'w \<Rightarrow> (err + 'al listing) \<times> 'w" where
  "UserClient_getAlbums newAlbum handleError this options w =
     (case util_fetch (UserClient.client this) ''/me/albums''
             (JObj [(''params'', (case options of None \<Rightarrow> JUndefined | Some ob \<Rightarrow> JObj ob))]) w of
        (r, w') \<Rightarrow>
          (try_catch
             (then_err r (\<lambda>data1.
              then_err (paging_literal (\<lambda>x. newAlbum x (UserClient.client this)) data1)
                (\<lambda>p. Inr (Envelope p))))
             (or_zero_paging handleError), w'))"

subsection \<open>Playlists\<close>

text \<open>
  \<open>followPlaylist(id, options = { public: true })\<close>: the default stands in for an omitted
  argument, and the body holds \<open>options.public || true\<close>.
\<close>

definition UserClient_followPlaylist ::
  "(err \<Rightarrow> err + jsval) \<Rightarrow> 'w UserClient \<Rightarrow> string \<Rightarrow> RawObject option \<Rightarrow> 'w \<Rightarrow>
   (err + jsval) \<times> 'w" where
  "UserClient_followPlaylist handleError this id0 options w =
     (let options1 = (case options of None \<Rightarrow> [(''public'', JBool True)] | Some ob \<Rightarrow> ob) in
      case util_fetch (UserClient.client this) (''/playlists/'' @ id0 @ ''/followers'')
             (JObj [(''method'', JStr ''PUT''),
                    (''headers'', JObj [(''Content-Type'', JStr ''application/json'')]),
                    (''body'', JObj [(''public'', js_or (lookup options1 ''public'') (JBool True))])]) w of
        (r, w') \<Rightarrow>
          (try_catch (then_err r (\<lambda>_. Inr (JBool True))) (or_value handleError (JBool False)), w'))"

definition UserClient_unfollowPlaylist ::
  "(err \<Rightarrow> err + jsval) \<Rightarrow> 'w UserClient \<Rightarrow> string \<Rightarrow> 'w \<Rightarrow> (err + jsval) \<times> 'w" where
  "UserClient_unfollowPlaylist handleError this id0 w =
     (case util_fetch (UserClient.client this) (''/playlists/'' @ id0 @ ''/followers'')
             (JObj [(''method'', JStr ''DELETE'')]) w of
        (r, w') \<Rightarrow>
          (try_catch (then_err r (\<lambda>_. Inr (JBool True))) (or_value handleError (JBool False)), w'))"

text \<open>
  \<open>followsPlaylist(id)\<close> has no \<open>try\<close>: what \<open>client.playlists.userFollows\<close> rejects with,
  and the \<open>TypeError\<close> of the index on \<open>undefined\<close> or \<open>null\<close>, leave the method as they are.
\<close>

definition UserClient_followsPlaylist ::
  "'w UserClient \<Rightarrow> string \<Rightarrow> 'w \<Rightarrow> (err + jsval) \<times> 'w" where
  "UserClient_followsPlaylist this id0 w =
     (case playlists_userFollows (UserClient.client this) id0 (UserClient.id this) w of
        (r, w') \<Rightarrow>
          (then_err r (\<lambda>follows.
           then_err (index0 follows) (\<lambda>first. Inr (js_or first (JBool False)))), w'))"

subsection \<open>Following artists and users\<close>

definition UserClient_followArtists ::
  "(err \<Rightarrow> err + jsval) \<Rightarrow> 'w UserClient \<Rightarrow> string list \<Rightarrow> 'w \<Rightarrow> (err + jsval) \<times> 'w" where
  "UserClient_followArtists handleError this ids w =
     (case util_fetch (UserClient.client this) ''/me/following''
             (JObj [(''method'', JStr ''PUT''),
                    (''params'', JObj [(''type'', JStr ''artist''),
                                       (''ids'', JStr (join '','' ids))])]) w of
        (r, w') \<Rightarrow>
          (try_catch (then_err r (\<lambda>_. Inr (JBool True))) (or_value handleError (JBool False)), w'))"

definition UserClient_unfollowArtists ::
  "(err \<Rightarrow> err + jsval) \<Rightarrow> 'w UserClient \<Rightarrow> string list \<Rightarrow> 'w \<Rightarrow> (err + jsval) \<times> 'w" where
  "UserClient_unfollowArtists handleError this ids w =
     (case util_fetch (UserClient.client this) ''/me/following''
             (JObj [(''method'', JStr ''DELETE''),
                    (''params'', JObj [(''type'', JStr ''artist''),
                                       (''ids'', JStr (join '','' ids))])]) w of
        (r, w') \<Rightarrow>
          (try_catch (then_err r (\<lambda>_. Inr (JBool True))) (or_value handleError (JBool False)), w'))"

definition UserClient_followUsers ::
  "(err \<Rightarrow> err + jsval) \<Rightarrow> 'w UserClient \<Rightarrow> string list \<Rightarrow> 'w \<Rightarrow> (err + jsval) \<times> 'w" where
  "UserClient_followUsers handleError this ids w =
     (case util_fetch (UserClient.client this) ''/me/following''
             (JObj [(''method'', JStr ''PUT''),
                    (''params'', JObj [(''type'', JStr ''user''),
                                       (''ids'', JStr (join '','' ids))])]) w of
        (r, w') \<Rightarrow>
          (try_catch (then_err r (\<lambda>_. Inr (JBool True))) (or_value handleError (JBool False)), w'))"

definition UserClient_unfollowUsers ::
  "(err \<Rightarrow> err + jsval) \<Rightarrow> 'w UserClient \<Rightarrow> string list \<Rightarrow> 'w \<Rightarrow> (err + jsval) \<times> 'w" where
  "UserClient_unfollowUsers handleError this ids w =
     (case util_fetch (UserClient.client this) ''/me/following''
             (JObj [(''method'', JStr ''DELETE''),
                    (''params'', JObj [(''type'', JStr ''user''),
                                       (''ids'', JStr (join '','' ids))])]) w of
        (r, w') \<Rightarrow>
          (try_catch (then_err r (\<lambda>_. Inr (JBool True))) (or_value handleError (JBool False)), w'))"

text \<open>The three \<open>contains\<close> methods return what the request resolves to, as it is.\<close>

definition UserClient_followsArtists ::
  "(err \<Rightarrow> err + jsval) \<Rightarrow> 'w UserClient \<Rightarrow> string list \<Rightarrow> 'w \<Rightarrow> (err + jsval) \<times> 'w" where
  "UserClient_followsArtists handleError this ids w =
     (case util_fetch (UserClient.client this) ''/me/following/contains''
             (JObj [(''params'', JObj [(''type'', JStr ''artist''),
                                       (''ids'', JStr (join '','' ids))])]) w of
        (r, w') \<Rightarrow> (try_catch r (or_value handleError (JArr [])), w'))"

definition UserClient_followsUsers ::
  "(err \<Rightarrow> err + jsval) \<Rightarrow> 'w UserClient \<Rightarrow> string list \<Rightarrow> 'w \<Rightarrow> (err + jsval) \<times> 'w" where
  "UserClient_followsUsers handleError this ids w =
     (case util_fetch (UserClient.client this) ''/me/following/contains''
             (JObj [(''params'', JObj [(''type'', JStr ''user''),
                                       (''ids'', JStr (join '','' ids))])]) w of
        (r, w') \<Rightarrow> (try_catch r (or_value handleError (JArr [])), w'))"

subsection \<open>Saved albums\<close>

definition UserClient_addAlbums ::
  "(err \<Rightarrow> err + jsval) \<Rightarrow> 'w UserClient \<Rightarrow> string list \<Rightarrow> 'w \<Rightarrow> (err + jsval) \<times> 'w" where
  "UserClient_addAlbums handleError this ids w =
     (case util_fetch (UserClient.client this) ''/me/albums''
             (JObj [(''method'', JStr ''PUT''),
                    (''params'', JObj [(''ids'', JStr (join '','' ids))])]) w of
        (r, w') \<Rightarrow>
          (try_catch (then_err r (\<lambda>_. Inr (JBool True))) (or_value handleError (JBool False)), w'))"

definition UserClient_deleteAlbums ::
  "(err \<Rightarrow> err + jsval) \<Rightarrow> 'w UserClient \<Rightarrow> string list \<Rightarrow> 'w \<Rightarrow> (err + jsval) \<times> 'w" where
  "UserClient_deleteAlbums handleError this ids w =
     (case util_fetch (UserClient.client this) ''/me/albums''
             (JObj [(''method'', JStr ''DELETE''),
                    (''params'', JObj [(''ids'', JStr (join '','' ids))])]) w of
        (r, w') \<Rightarrow>
          (try_catch (then_err r (\<lambda>_. Inr (JBool True))) (or_value handleError (JBool False)), w'))"

definition UserClient_hasAlbums ::
  "(err \<Rightarrow> err + jsval) \<Rightarrow> 'w UserClient \<Rightarrow> string list \<Rightarrow> 'w \<Rightarrow> (err + jsval) \<times> 'w" where
  "UserClient_hasAlbums handleError this ids w =
     (case util_fetch (UserClient.client this) ''/me/albums/contains''
             (JObj [(''params'', JObj [(''ids'', JStr (join '','' ids))])]) w of
        (r, w') \<Rightarrow> (try_catch r (or_value handleError (JArr [])), w'))"

subsection \<open>Any call of the class\<close>

text \<open>
  To speak of every method at once: a call names a method and its arguments, and
  \<open>UserClient_call\<close> runs it, giving what it returns or throws, the client after the call
  and the world after the call. Only \<open>info()\<close> has an assignment to a field of \<open>this\<close>;
  the other methods give the client back as they found it.
\<close>

datatype call =
    Info
  | GetTopTracks "RawObject option"
  | GetTopArtists "RawObject option"
  | FollowPlaylist string "RawObject option"
  | UnfollowPlaylist string
  | FollowsPlaylist string
  | GetFollowingArtists "RawObject option"
  | FollowArtists "string list"
  | UnfollowArtists "string list"
  | FollowUsers "string list"
  | UnfollowUsers "string list"
  | FollowsArtists "string list"
  | FollowsUsers "string list"
  | GetAlbums "RawObject option"
  | AddAlbums "string list"
  | DeleteAlbums "string list"
  | HasAlbums "string list"

datatype ('w, 't, 'al) result =
    This
  | Value jsval
  | Tracks "'t listing"
  | Artists "'w Client Artist listing"
  | Albums "'al listing"

record ('w, 't, 'al) Imports =
  handleError :: "err \<Rightarrow> err + jsval"
  newTrack :: "jsval \<Rightarrow> 'w Client \<Rightarrow> err + 't"
  newAlbum :: "jsval \<Rightarrow> 'w Client \<Rightarrow> err + 'al"

definition unchanged :: "('a \<Rightarrow> 'r) \<Rightarrow> 'u \<Rightarrow> (err + 'a) \<times> 'w \<Rightarrow> (err + 'r) \<times> 'u \<times> 'w" where
  "unchanged tag this rw = (case rw of (r, w') \<Rightarrow> (then_err r (\<lambda>x. Inr (tag x)), this, w'))"

fun UserClient_call ::
  "('w, 't, 'al) Imports \<Rightarrow> call \<Rightarrow> 'w UserClient \<Rightarrow> 'w \<Rightarrow>
   (err + ('w, 't, 'al) result) \<times> 'w UserClient \<times> 'w" where
  "UserClient_call im Info this w =
     (case UserClient_info this w of (r, this', w') \<Rightarrow> (then_err r (\<lambda>_. Inr This), this', w'))"
| "UserClient_call im (GetTopTracks options) this w =
     unchanged Tracks this (UserClient_getTopTracks (newTrack im) (handleError im) this options w)"
| "UserClient_call im (GetTopArtists options) this w =
     unchanged Artists this (UserClient_getTopArtists (handleError im) this options w)"
| "UserClient_call im (FollowPlaylist id0 options) this w =
     unchanged Value this (UserClient_followPlaylist (handleError im) this id0 options w)"
| "UserClient_call im (UnfollowPlaylist id0) this w =
     unchanged Value this (UserClient_unfollowPlaylist (handleError im) this id0 w)"
| "UserClient_call im (FollowsPlaylist id0) this w =
     unchanged Value this (UserClient_followsPlaylist this id0 w)"
| "UserClient_call im (GetFollowingArtists options) this w =
     unchanged Artists this (UserClient_getFollowingArtists (handleError im) this options w)"
| "UserClient_call im (FollowArtists ids) this w =
     unchanged Value this (UserClient_followArtists (handleError im) this ids w)"
| "UserClient_call im (UnfollowArtists ids) this w =
     unchanged Value this (UserClient_unfollowArtists (handleError im) this ids w)"
| "UserClient_call im (FollowUsers ids) this w =
     unchanged Value this (UserClient_followUsers (handleError im) this ids w)"
| "UserClient_call im (UnfollowUsers ids) this w =
     unchanged Value this (UserClient_unfollowUsers (handleError im) this ids w)"
| "UserClient_call im (FollowsArtists ids) this w =
     unchanged Value this (UserClient_followsArtists (handleError im) this ids w)"
| "UserClient_call im (FollowsUsers ids) this w =
     unchanged Value this (UserClient_followsUsers (handleError im) this ids w)"
| "UserClient_call im (GetAlbums options) this w =
     unchanged Albums this (UserClient_getAlbums (newAlbum im) (handleError im) this options w)"
| "UserClient_call im (AddAlbums ids) this w =
     unchanged Value this (UserClient_addAlbums (handleError im) this ids w)"
| "UserClient_call im (DeleteAlbums ids) this w =
     unchanged Value this (UserClient_deleteAlbums (handleError im) this ids w)"
| "UserClient_call im (HasAlbums ids) this w =
     unchanged Value this (UserClient_hasAlbums (handleError im) this ids w)"

subsection \<open>An HTTP layer that records its requests\<close>

text \<open>
  To observe the request a method sends, the world is the list of the requests made so
  far: \<open>recording_fetch respond\<close> appends the request it receives and answers with
  \<open>respond\<close>. \<open>with_fetch f this\<close> is \<open>this\<close> on a client whose \<open>util.fetch\<close> is \<open>f\<close>.
\<close>

type_synonym request = "string \<times> jsval"

definition recording_fetch ::
  "(string \<Rightarrow> jsval \<Rightarrow> err + jsval) \<Rightarrow> string \<Rightarrow> jsval \<Rightarrow> request list \<Rightarrow>
   (err + jsval) \<times> request list" where
  "recording_fetch respond path options log = (respond path options, log @ [(path, options)])"

definition with_fetch ::
  "(string \<Rightarrow> jsval \<Rightarrow> 'w \<Rightarrow> (err + jsval) \<times> 'w) \<Rightarrow> 'w UserClient \<Rightarrow> 'w UserClient" where
  "with_fetch f this =
     this\<lparr>UserClient.client := (UserClient.client this)\<lparr>util_fetch := f\<rparr>\<rparr>"

subsection \<open>The fallback values\<close>



subsection \<open>Concrete collaborators and payloads\<close>

text \<open>
  Inputs on which the theorems below are run. \<open>stub_client r\<close> is a client whose every
  call has the one outcome \<open>r\<close> and leaves the world (here \<open>unit\<close>) alone; \<open>offline\<close>,
  \<open>online\<close> and \<open>answering\<close> are fresh user clients on a client that rejects, that
  resolves to the profile payload of the example scenario, and that resolves to two
  booleans. \<open>suppressing\<close> has a \<open>handleError\<close> that returns no value, and takes the raw
  record itself for a Track and an Album. \<open>old_artist\<close> is the Artist built from
  \<open>{id: 'a1', name: 'Old'}\<close>, and \<open>renamed_get\<close> an \<open>artists.get\<close> that builds a new
  Artist from the record \<open>{id, name: 'New'}\<close> and puts it at address 1.
\<close>

definition stub_client :: "(err + jsval) \<Rightarrow> unit Client" where
  "stub_client r =
     \<lparr> util_fetch = (\<lambda>path options w. (r, w)),
       playlists_userFollows = (\<lambda>id0 user w. (r, w)) \<rparr>"

definition alice :: RawObject where
  "alice = [(''id'', JStr ''u1''), (''display_name'', JStr ''Alice''),
            (''followers'', JObj [(''total'', JNum 5)]), (''images'', JArr []),
            (''external_urls'', JObj []), (''href'', JStr ''h''),
            (''uri'', JStr ''spotify:user:u1'')]"

definition online :: "unit UserClient" where
  "online = UserClient_constructor (\<lambda>t. stub_client (Inr (JObj alice))) (Inl ''token'')"

definition offline :: "unit UserClient" where
  "offline =
     UserClient_constructor (\<lambda>t. stub_client (Inl (Thrown (JStr ''offline'')))) (Inl ''token'')"


definition suppressing :: "(unit, jsval, jsval) Imports" where
  "suppressing = \<lparr> handleError = (\<lambda>e. Inr JUndefined),
                    newTrack = (\<lambda>x c. Inr x), newAlbum = (\<lambda>x c. Inr x) \<rparr>"

definition full_artist :: RawObject where
  "full_artist = [(''id'', JStr ''a1''), (''name'', JStr ''Nina''),
                  (''followers'', JObj [(''total'', JNum 7)]),
                  (''genres'', JArr [JStr ''jazz'']), (''popularity'', JNum 60)]"

definition simplified_artist :: RawObject where
  "simplified_artist = [(''id'', JStr ''a1''), (''name'', JStr ''Nina'')]"

definition old_artist :: "unit Artist" where
  "old_artist =
     \<lparr> Artist.data = JObj [(''id'', JStr ''a1''), (''name'', JStr ''Old'')], Artist.client = (),
       Artist.externalUrls = JUndefined, Artist.href = JUndefined, Artist.id = JStr ''a1'',
       Artist.name = JStr ''Old'', Artist.type = JUndefined, Artist.uri = JUndefined,
       Artist.images = JArr [], Artist.simplified = True, Artist.totalFollowers = JUndefined,
       Artist.genres = JUndefined, Artist.popularity = JUndefined \<rparr>"


text \<open>
  \<open>recorder\<close> is a fresh user client on a client that records its requests and resolves
  each of them to \<open>undefined\<close>.
\<close>

definition recorder :: "request list UserClient" where
  "recorder =
     UserClient_constructor
       (\<lambda>t. \<lparr> util_fetch = recording_fetch (\<lambda>path options. Inr JUndefined),
               playlists_userFollows = (\<lambda>id0 user log. (Inr (JArr []), log)) \<rparr>)
       (Inl ''token'')"

section \<open>Properties\<close>

subsection \<open>Reading records, joining ids, catching\<close>

lemma lookup_absent: "k \<notin> set (map fst kvs) \<Longrightarrow> lookup kvs k = JUndefined"
  by (simp add: lookup_def map_of_eq_None_iff[THEN iffD2])

lemma get_prop_defined:
  "v \<noteq> JUndefined \<Longrightarrow> v \<noteq> JNull \<Longrightarrow> \<exists>x. get_prop v k = Inr x"
  by (cases v) simp_all

text \<open>
  \<open>join\<close> is the first element followed by every further element with the separator
  before it, and splitting at the separator gives the elements back when none of them
  holds the separator.
\<close>

lemma join_explicit:
  "join sep ids = (case ids of [] \<Rightarrow> [] | x # xs \<Rightarrow> x @ concat (map (\<lambda>y. sep @ y) xs))"
  by (induction sep ids rule: join.induct) simp_all

lemma split_on_no_separator: "c \<notin> set x \<Longrightarrow> split_on c x = [x]"
  by (induction x) auto

lemma split_on_append: "c \<notin> set x \<Longrightarrow> split_on c (x @ c # rest) = x # split_on c rest"
  by (induction x) auto

lemma split_on_join:
  "ids \<noteq> [] \<Longrightarrow> \<forall>i\<in>set ids. c \<notin> set i \<Longrightarrow> split_on c (join [c] ids) = ids"
proof (induction "[c]" ids rule: join.induct)
  case 1
  then show ?case by simp
next
  case (2 x)
  then show ?case by (simp add: split_on_no_separator)
next
  case (3 x y ys)
  then show ?case by (simp add: split_on_append)
qed

lemma join_two: "join '','' [''id1'', ''id2''] = ''id1,id2''"
  by simp



lemma unchanged_this: "fst (snd (unchanged tag this rw)) = this"
  by (cases rw) (simp add: unchanged_def)

lemma client_with_fetch: "util_fetch (UserClient.client (with_fetch f this)) = f"
  by (simp add: with_fetch_def)



subsection \<open>The Artist constructor\<close>

lemma Artist_constructor_simplified:
  assumes "''popularity'' \<notin> set (map fst kvs)"
  shows "\<exists>a. Artist_constructor (JObj kvs) c = Inr a \<and> Artist.simplified a \<and>
           Artist.totalFollowers a = JUndefined \<and> Artist.genres a = JUndefined \<and>
           Artist.popularity a = JUndefined"
  using assms by (simp add: Artist_constructor_def then_err_def)

lemma Artist_constructor_full:
  assumes key: "''popularity'' \<in> set (map fst kvs)"
    and followers: "lookup kvs ''followers'' \<noteq> JUndefined" "lookup kvs ''followers'' \<noteq> JNull"
  shows "\<exists>a. Artist_constructor (JObj kvs) c = Inr a \<and> \<not> Artist.simplified a \<and>
           get_prop (lookup kvs ''followers'') ''total'' = Inr (Artist.totalFollowers a) \<and>
           Artist.genres a = lookup kvs ''genres'' \<and>
           Artist.popularity a = lookup kvs ''popularity''"
proof -
  from get_prop_defined [OF followers] obtain x
    where x: "get_prop (lookup kvs ''followers'') ''total'' = Inr x" ..
  with key show ?thesis
    by (simp add: Artist_constructor_def then_err_def)
qed

lemma Artist_constructor_throws:
  assumes key: "''popularity'' \<in> set (map fst kvs)"
    and followers: "lookup kvs ''followers'' = JUndefined \<or> lookup kvs ''followers'' = JNull"
  shows "Artist_constructor (JObj kvs) c = Inl TypeError"
  using assms by (auto simp add: Artist_constructor_def then_err_def)

lemma old_artist_constructed:
  "Artist_constructor (JObj [(''id'', JStr ''a1''), (''name'', JStr ''Old'')]) () = Inr old_artist"
  by (simp add: Artist_constructor_def then_err_def lookup_def js_or_def old_artist_def)

text \<open>
  Claim C3, as the code has it. For a raw record that holds the key \<open>popularity\<close> and whose
  \<open>followers\<close> entry is neither \<open>undefined\<close> (absent) nor \<open>null\<close>, the constructor
  returns an Artist with \<open>simplified = false\<close>, \<open>totalFollowers\<close> read from
  \<open>followers.total\<close>, and \<open>genres\<close> and \<open>popularity\<close> copied from the record. With the key
  and without such a \<open>followers\<close> entry it throws a \<open>TypeError\<close>. For a raw record without
  the key it returns an Artist with \<open>simplified = true\<close> and the three fields
  \<open>undefined\<close>. Only the presence of the key decides the branch.
\<close>

theorem Artist_constructor_branches:
  "(''popularity'' \<in> set (map fst kvs) \<and>
      lookup kvs ''followers'' \<noteq> JUndefined \<and> lookup kvs ''followers'' \<noteq> JNull \<longrightarrow>
      (\<exists>a. Artist_constructor (JObj kvs) c = Inr a \<and> Artist.simplified a = False \<and>
           get_prop (lookup kvs ''followers'') ''total'' = Inr (Artist.totalFollowers a) \<and>
           Artist.genres a = lookup kvs ''genres'' \<and>
           Artist.popularity a = lookup kvs ''popularity'')) \<and>
   (''popularity'' \<in> set (map fst kvs) \<and>
      (lookup kvs ''followers'' = JUndefined \<or> lookup kvs ''followers'' = JNull) \<longrightarrow>
      Artist_constructor (JObj kvs) c = Inl TypeError) \<and>
   (''popularity'' \<notin> set (map fst kvs) \<longrightarrow>
      (\<exists>a. Artist_constructor (JObj kvs) c = Inr a \<and> Artist.simplified a = True \<and>
           Artist.totalFollowers a = JUndefined \<and> Artist.genres a = JUndefined \<and>
           Artist.popularity a = JUndefined))"
  using Artist_constructor_full [of kvs c] Artist_constructor_throws [of kvs c]
    Artist_constructor_simplified [of kvs c]
  by simp

text \<open>
  The three branches of C3 on concrete records: a full record, the record
  \<open>{popularity: 5}\<close>, and a simplified record.
\<close>

theorem Artist_constructor_branches_witness:
  "(''popularity'' \<in> set (map fst full_artist) \<and>
    lookup full_artist ''followers'' \<noteq> JUndefined \<and> lookup full_artist ''followers'' \<noteq> JNull) \<and>
   (\<exists>a. Artist_constructor (JObj full_artist) () = Inr a \<and> Artist.simplified a = False \<and>
        Artist.totalFollowers a = JNum 7 \<and>
        Artist.genres a = JArr [JStr ''jazz''] \<and> Artist.popularity a = JNum 60) \<and>
   (''popularity'' \<in> set (map fst [(''popularity'', JNum 5)]) \<and>
    lookup [(''popularity'', JNum 5)] ''followers'' = JUndefined) \<and>
   Artist_constructor (JObj [(''popularity'', JNum 5)]) () = Inl TypeError \<and>
   ''popularity'' \<notin> set (map fst simplified_artist) \<and>
   (\<exists>a. Artist_constructor (JObj simplified_artist) () = Inr a \<and> Artist.simplified a = True \<and>
        Artist.totalFollowers a = JUndefined \<and> Artist.genres a = JUndefined \<and>
        Artist.popularity a = JUndefined)"
proof -
  have full: "''popularity'' \<in> set (map fst full_artist) \<and>
    lookup full_artist ''followers'' \<noteq> JUndefined \<and> lookup full_artist ''followers'' \<noteq> JNull"
    by (simp add: full_artist_def lookup_def)
  have bare: "''popularity'' \<in> set (map fst [(''popularity'', JNum 5)]) \<and>
    lookup [(''popularity'', JNum 5)] ''followers'' = JUndefined"
    by (simp add: lookup_def)
  have part: "''popularity'' \<notin> set (map fst simplified_artist)"
    by (simp add: simplified_artist_def)
  have vals: "get_prop (lookup full_artist ''followers'') ''total'' = Inr (JNum 7)"
    "lookup full_artist ''genres'' = JArr [JStr ''jazz'']"
    "lookup full_artist ''popularity'' = JNum 60"
    by (simp_all add: full_artist_def lookup_def)
  from Artist_constructor_branches [of full_artist "()"] full vals
  have one: "\<exists>a. Artist_constructor (JObj full_artist) () = Inr a \<and> Artist.simplified a = False \<and>
        Artist.totalFollowers a = JNum 7 \<and>
        Artist.genres a = JArr [JStr ''jazz''] \<and> Artist.popularity a = JNum 60"
    by auto
  from Artist_constructor_branches [of "[(''popularity'', JNum 5)]" "()"] bare
  have two: "Artist_constructor (JObj [(''popularity'', JNum 5)]) () = Inl TypeError"
    by blast
  from Artist_constructor_branches [of simplified_artist "()"] part
  have three: "\<exists>a. Artist_constructor (JObj simplified_artist) () = Inr a \<and> Artist.simplified a = True \<and>
        Artist.totalFollowers a = JUndefined \<and> Artist.genres a = JUndefined \<and>
        Artist.popularity a = JUndefined"
    by blast
  from full one bare two part three show ?thesis by blast
qed

text \<open>
  Claim C3 as it is written fails on the record \<open>{popularity: 5}\<close>: the key is there, and
  the read of \<open>data.followers.total\<close> throws, so no Artist is constructed.
\<close>

theorem Artist_constructor_no_followers:
  "''popularity'' \<in> set (map fst [(''popularity'', JNum 5)]) \<and>
   Artist_constructor (JObj [(''popularity'', JNum 5)]) () = Inl TypeError"
  by (simp add: Artist_constructor_def then_err_def lookup_def)

subsection \<open>Artist.fetch\<close>




subsection \<open>The profile of the current user\<close>

text \<open>
  On a payload that is an object, the only statement of \<open>info()\<close> that can throw is the
  read of \<open>data.followers.total\<close>: the five assignments before it are made either way.
\<close>

lemma info_assignments_object:
  "info_assignments (JObj kvs) t =
     (case get_prop (lookup kvs ''followers'') ''total'' of
        Inl e \<Rightarrow>
          (Inl e, t\<lparr>UserClient.name := lookup kvs ''display_name'',
                    UserClient.country := js_or (lookup kvs ''country'') (JStr ''unknown''),
                    UserClient.id := lookup kvs ''id'',
                    UserClient.email := js_or (lookup kvs ''email'') (JStr ''unknown''),
                    UserClient.externalUrls := lookup kvs ''external_urls''\<rparr>)
      | Inr followers_total \<Rightarrow>
          (Inr (), t\<lparr>UserClient.name := lookup kvs ''display_name'',
                     UserClient.country := js_or (lookup kvs ''country'') (JStr ''unknown''),
                     UserClient.id := lookup kvs ''id'',
                     UserClient.email := js_or (lookup kvs ''email'') (JStr ''unknown''),
                     UserClient.externalUrls := lookup kvs ''external_urls'',
                     UserClient.totalFollowers := followers_total,
                     UserClient.href := lookup kvs ''href'',
                     UserClient.images := lookup kvs ''images'',
                     UserClient.product := js_or (lookup kvs ''product'') (JStr ''unknown''),
                     UserClient.uri := lookup kvs ''uri''\<rparr>))"
  by (simp add: info_assignments_def assign_def then_err_def split: sum.split)

lemma info_country:
  assumes "util_fetch (UserClient.client this) ''/me'' JUndefined w = (Inr (JObj kvs), w')"
  shows "UserClient.country (fst (snd (UserClient_info this w))) =
           js_or (lookup kvs ''country'') (JStr ''unknown'')"
  using assms by (simp add: UserClient_info_def info_assignments_object split: sum.split)

lemma online_request:
  "util_fetch (UserClient.client online) ''/me'' JUndefined () = (Inr (JObj alice), ())"
  by (simp add: online_def UserClient_constructor_def stub_client_def)

lemma alice_fields:
  "get_prop (lookup alice ''followers'') ''total'' = Inr (JNum 5)"
  "lookup alice ''display_name'' = JStr ''Alice''"
  "lookup alice ''country'' = JUndefined"
  by (simp_all add: lookup_def alice_def)

text \<open>
  Claim C6. When the HTTP layer resolves the request \<open>fetch('/me')\<close> to the payload of the
  example, \<open>info()\<close> returns, and the client then has \<open>name = 'Alice'\<close>,
  \<open>totalFollowers = 5\<close> and \<open>country = 'unknown'\<close>.
\<close>

theorem info_alice:
  assumes "util_fetch (UserClient.client this) ''/me'' JUndefined w = (Inr (JObj alice), w')"
  shows "fst (UserClient_info this w) = Inr () \<and>
         UserClient.name (fst (snd (UserClient_info this w))) = JStr ''Alice'' \<and>
         UserClient.totalFollowers (fst (snd (UserClient_info this w))) = JNum 5 \<and>
         UserClient.country (fst (snd (UserClient_info this w))) = JStr ''unknown''"
  using assms unfolding UserClient_info_def
  by (simp add: info_assignments_object alice_fields js_or_def)

text \<open>C6 on a fresh client whose HTTP layer resolves to the payload.\<close>

theorem info_alice_witness:
  "util_fetch (UserClient.client online) ''/me'' JUndefined () = (Inr (JObj alice), ()) \<and>
   fst (UserClient_info online ()) = Inr () \<and>
   UserClient.name (fst (snd (UserClient_info online ()))) = JStr ''Alice'' \<and>
   UserClient.totalFollowers (fst (snd (UserClient_info online ()))) = JNum 5 \<and>
   UserClient.country (fst (snd (UserClient_info online ()))) = JStr ''unknown''"
  using info_alice [OF online_request] online_request by simp

text \<open>
  Claim C10. A freshly constructed UserClient holds the defaults: \<open>name\<close>, \<open>country\<close>,
  \<open>uri\<close>, \<open>id\<close> and \<open>href\<close> are the empty string, \<open>email\<close> and \<open>product\<close> are
  \<open>'unknown'\<close>, \<open>totalFollowers\<close> is 0, \<open>externalUrls\<close> is \<open>{}\<close> and \<open>images\<close> is \<open>[]\<close>.
  After a call of \<open>info()\<close> whose payload is a record without \<open>country\<close>, the country is
  \<open>'unknown'\<close>, not the empty string.
\<close>

theorem UserClient_constructor_defaults:
  "UserClient.name (UserClient_constructor newClient token) = JStr '''' \<and>
   UserClient.country (UserClient_constructor newClient token) = JStr '''' \<and>
   UserClient.uri (UserClient_constructor newClient token) = JStr '''' \<and>
   UserClient.id (UserClient_constructor newClient token) = JStr '''' \<and>
   UserClient.href (UserClient_constructor newClient token) = JStr '''' \<and>
   UserClient.email (UserClient_constructor newClient token) = JStr ''unknown'' \<and>
   UserClient.product (UserClient_constructor newClient token) = JStr ''unknown'' \<and>
   UserClient.totalFollowers (UserClient_constructor newClient token) = JNum 0 \<and>
   UserClient.externalUrls (UserClient_constructor newClient token) = JObj [] \<and>
   UserClient.images (UserClient_constructor newClient token) = JArr [] \<and>
   (util_fetch (UserClient.client this) ''/me'' JUndefined w = (Inr (JObj kvs), w') \<and>
    ''country'' \<notin> set (map fst kvs) \<longrightarrow>
      UserClient.country (fst (snd (UserClient_info this w))) = JStr ''unknown'')"
proof -
  have "UserClient.country (fst (snd (UserClient_info this w))) = JStr ''unknown''"
    if "util_fetch (UserClient.client this) ''/me'' JUndefined w = (Inr (JObj kvs), w')"
      and "''country'' \<notin> set (map fst kvs)"
    using info_country [OF that(1)] lookup_absent [OF that(2)] by (simp add: js_or_def)
  then show ?thesis
    by (simp add: UserClient_constructor_def)
qed

text \<open>C10 on one client, before and after \<open>info()\<close> on the payload of the example.\<close>

theorem UserClient_constructor_defaults_witness:
  "util_fetch (UserClient.client online) ''/me'' JUndefined () = (Inr (JObj alice), ()) \<and>
   ''country'' \<notin> set (map fst alice) \<and>
   UserClient.country online = JStr '''' \<and>
   UserClient.country (fst (snd (UserClient_info online ()))) = JStr ''unknown''"
proof -
  have absent: "''country'' \<notin> set (map fst alice)"
    by (simp add: alice_def)
  from UserClient_constructor_defaults
    [where newClient = "\<lambda>t. stub_client (Inr (JObj alice))" and token = "Inl ''token''"
       and this = online and w = "()" and kvs = alice and w' = "()"]
    online_request absent
  show ?thesis by (simp add: online_def)
qed

subsection \<open>The requests sent\<close>

text \<open>
  Claim C1, as the code has it. On an HTTP layer that records its requests,
  \<open>followPlaylist(id)\<close> sends one \<open>PUT\<close> to \<open>/playlists/{id}/followers\<close> whose body is
  \<open>{public: true}\<close>, and \<open>followPlaylist(id, {public: false})\<close> sends the same body
  \<open>{public: true}\<close>: \<open>options.public || true\<close> is \<open>true\<close> for \<open>false\<close> too.
\<close>

theorem followPlaylist_body_public:
  "snd (UserClient_followPlaylist handleError0 (with_fetch (recording_fetch respond) this) id0
          None log) =
     log @ [(''/playlists/'' @ id0 @ ''/followers'',
             JObj [(''method'', JStr ''PUT''),
                   (''headers'', JObj [(''Content-Type'', JStr ''application/json'')]),
                   (''body'', JObj [(''public'', JBool True)])])] \<and>
   snd (UserClient_followPlaylist handleError0 (with_fetch (recording_fetch respond) this) id0
          (Some [(''public'', JBool False)]) log) =
     log @ [(''/playlists/'' @ id0 @ ''/followers'',
             JObj [(''method'', JStr ''PUT''),
                   (''headers'', JObj [(''Content-Type'', JStr ''application/json'')]),
                   (''body'', JObj [(''public'', JBool True)])])]"
  by (simp add: UserClient_followPlaylist_def client_with_fetch recording_fetch_def lookup_def
      js_or_def Let_def)

text \<open>
  Claim C8. On an HTTP layer that records its requests, each of the six following methods
  adds exactly one request to the log, and the request is a function of the ids alone:
  the parameter \<open>type\<close> is \<open>'artist'\<close> for followArtists, unfollowArtists and
  followsArtists and \<open>'user'\<close> for followUsers, unfollowUsers and followsUsers, and the
  parameter \<open>ids\<close> is the ids joined with commas: the first id, then every further id
  with a comma before it, so that splitting the parameter at the commas gives the ids
  back whenever there is an id and no id holds a comma.
\<close>

theorem following_requests:
  "snd (UserClient_followArtists handleError0 (with_fetch (recording_fetch respond) this) ids log) =
     log @ [(''/me/following'',
             JObj [(''method'', JStr ''PUT''),
                   (''params'', JObj [(''type'', JStr ''artist''), (''ids'', JStr (join '','' ids))])])] \<and>
   snd (UserClient_unfollowArtists handleError0 (with_fetch (recording_fetch respond) this) ids log) =
     log @ [(''/me/following'',
             JObj [(''method'', JStr ''DELETE''),
                   (''params'', JObj [(''type'', JStr ''artist''), (''ids'', JStr (join '','' ids))])])] \<and>
   snd (UserClient_followsArtists handleError0 (with_fetch (recording_fetch respond) this) ids log) =
     log @ [(''/me/following/contains'',
             JObj [(''params'', JObj [(''type'', JStr ''artist''), (''ids'', JStr (join '','' ids))])])] \<and>
   snd (UserClient_followUsers handleError0 (with_fetch (recording_fetch respond) this) ids log) =
     log @ [(''/me/following'',
             JObj [(''method'', JStr ''PUT''),
                   (''params'', JObj [(''type'', JStr ''user''), (''ids'', JStr (join '','' ids))])])] \<and>
   snd (UserClient_unfollowUsers handleError0 (with_fetch (recording_fetch respond) this) ids log) =
     log @ [(''/me/following'',
             JObj [(''method'', JStr ''DELETE''),
                   (''params'', JObj [(''type'', JStr ''user''), (''ids'', JStr (join '','' ids))])])] \<and>
   snd (UserClient_followsUsers handleError0 (with_fetch (recording_fetch respond) this) ids log) =
     log @ [(''/me/following/contains'',
             JObj [(''params'', JObj [(''type'', JStr ''user''), (''ids'', JStr (join '','' ids))])])] \<and>
   join '','' ids =
     (case ids of [] \<Rightarrow> [] | x # xs \<Rightarrow> x @ concat (map (\<lambda>y. '','' @ y) xs)) \<and>
   (ids \<noteq> [] \<and> (\<forall>i\<in>set ids. CHR '','' \<notin> set i) \<longrightarrow>
      split_on CHR '','' (join '','' ids) = ids)"
proof -
  have sent: "snd (case recording_fetch respond path options log of (r, w') \<Rightarrow> (k r, w')) =
      log @ [(path, options)]" for path options and k :: "err + jsval \<Rightarrow> err + jsval"
    by (simp add: recording_fetch_def)
  have requests:
    "snd (UserClient_followArtists handleError0 (with_fetch (recording_fetch respond) this) ids log) =
       log @ [(''/me/following'',
             JObj [(''method'', JStr ''PUT''),
                   (''params'', JObj [(''type'', JStr ''artist''), (''ids'', JStr (join '','' ids))])])]"
    "snd (UserClient_unfollowArtists handleError0 (with_fetch (recording_fetch respond) this) ids log) =
       log @ [(''/me/following'',
             JObj [(''method'', JStr ''DELETE''),
                   (''params'', JObj [(''type'', JStr ''artist''), (''ids'', JStr (join '','' ids))])])]"
    "snd (UserClient_followsArtists handleError0 (with_fetch (recording_fetch respond) this) ids log) =
       log @ [(''/me/following/contains'',
             JObj [(''params'', JObj [(''type'', JStr ''artist''), (''ids'', JStr (join '','' ids))])])]"
    "snd (UserClient_followUsers handleError0 (with_fetch (recording_fetch respond) this) ids log) =
       log @ [(''/me/following'',
             JObj [(''method'', JStr ''PUT''),
                   (''params'', JObj [(''type'', JStr ''user''), (''ids'', JStr (join '','' ids))])])]"
    "snd (UserClient_unfollowUsers handleError0 (with_fetch (recording_fetch respond) this) ids log) =
       log @ [(''/me/following'',
             JObj [(''method'', JStr ''DELETE''),
                   (''params'', JObj [(''type'', JStr ''user''), (''ids'', JStr (join '','' ids))])])]"
    "snd (UserClient_followsUsers handleError0 (with_fetch (recording_fetch respond) this) ids log) =
       log @ [(''/me/following/contains'',
             JObj [(''params'', JObj [(''type'', JStr ''user''), (''ids'', JStr (join '','' ids))])])]"
    unfolding UserClient_followArtists_def UserClient_unfollowArtists_def
      UserClient_followsArtists_def UserClient_followUsers_def UserClient_unfollowUsers_def
      UserClient_followsUsers_def client_with_fetch
    by (rule sent)+
  have roundtrip: "split_on CHR '','' (join '','' ids) = ids"
    if "ids \<noteq> [] \<and> (\<forall>i\<in>set ids. CHR '','' \<notin> set i)"
    using that split_on_join [of ids "CHR '',''"] by simp
  from requests join_explicit [of "'',''" ids] roundtrip show ?thesis
    by blast
qed

text \<open>
  C8 on the ids \<open>'id1'\<close> and \<open>'id2'\<close>, on a client that records its requests: each of the
  six methods sends \<open>ids = 'id1,id2'\<close>, which splits into the two ids.
\<close>

theorem following_requests_witness:
  "[''id1'', ''id2''] \<noteq> [] \<and> CHR '','' \<notin> set ''id1'' \<and> CHR '','' \<notin> set ''id2'' \<and>
   snd (UserClient_followArtists (handleError suppressing)
          (with_fetch (recording_fetch (\<lambda>path options. Inr JUndefined)) recorder) [''id1'', ''id2''] []) =
     [(''/me/following'',
       JObj [(''method'', JStr ''PUT''),
             (''params'', JObj [(''type'', JStr ''artist''), (''ids'', JStr ''id1,id2'')])])] \<and>
   snd (UserClient_unfollowArtists (handleError suppressing)
          (with_fetch (recording_fetch (\<lambda>path options. Inr JUndefined)) recorder) [''id1'', ''id2''] []) =
     [(''/me/following'',
       JObj [(''method'', JStr ''DELETE''),
             (''params'', JObj [(''type'', JStr ''artist''), (''ids'', JStr ''id1,id2'')])])] \<and>
   snd (UserClient_followsArtists (handleError suppressing)
          (with_fetch (recording_fetch (\<lambda>path options. Inr JUndefined)) recorder) [''id1'', ''id2''] []) =
     [(''/me/following/contains'',
       JObj [(''params'', JObj [(''type'', JStr ''artist''), (''ids'', JStr ''id1,id2'')])])] \<and>
   snd (UserClient_followUsers (handleError suppressing)
          (with_fetch (recording_fetch (\<lambda>path options. Inr JUndefined)) recorder) [''id1'', ''id2''] []) =
     [(''/me/following'',
       JObj [(''method'', JStr ''PUT''),
             (''params'', JObj [(''type'', JStr ''user''), (''ids'', JStr ''id1,id2'')])])] \<and>
   snd (UserClient_unfollowUsers (handleError suppressing)
          (with_fetch (recording_fetch (\<lambda>path options. Inr JUndefined)) recorder) [''id1'', ''id2''] []) =
     [(''/me/following'',
       JObj [(''method'', JStr ''DELETE''),
             (''params'', JObj [(''type'', JStr ''user''), (''ids'', JStr ''id1,id2'')])])] \<and>
   snd (UserClient_followsUsers (handleError suppressing)
          (with_fetch (recording_fetch (\<lambda>path options. Inr JUndefined)) recorder) [''id1'', ''id2''] []) =
     [(''/me/following/contains'',
       JObj [(''params'', JObj [(''type'', JStr ''user''), (''ids'', JStr ''id1,id2'')])])] \<and>
   split_on CHR '','' ''id1,id2'' = [''id1'', ''id2'']"
proof -
  have separate: "[''id1'', ''id2''] \<noteq> [] \<and> (\<forall>i\<in>set [''id1'', ''id2'']. CHR '','' \<notin> set i)"
    by simp
  have joined: "(case [''id1'', ''id2''] of [] \<Rightarrow> [] | x # xs \<Rightarrow> x @ concat (map (\<lambda>y. '','' @ y) xs)) =
      ''id1,id2''"
    by simp
  note inst = following_requests
    [where ?handleError0.0 = "handleError suppressing"
       and respond = "\<lambda>path options. Inr JUndefined" and this = recorder
       and ids = "[''id1'', ''id2'']" and log = "[]"]
  from inst joined have param: "join '','' [''id1'', ''id2''] = ''id1,id2''"
    by (elim conjE) (simp only:)
  from inst separate have "split_on CHR '','' (join '','' [''id1'', ''id2'']) = [''id1'', ''id2'']"
    by blast
  with inst param show ?thesis
    by (simp only: append_Nil) simp
qed

subsection \<open>Failed requests\<close>






subsection \<open>The contains methods\<close>










subsection \<open>What a call changes of the client\<close>

text \<open>
  Claim C9. A call of any method other than \<open>info()\<close> leaves the client as it was,
  whatever the HTTP layer does. \<open>info()\<close> is the method that writes: on a payload that is
  a record with a readable \<open>followers.total\<close> it sets the ten profile fields from the
  payload.
\<close>

theorem only_info_assigns:
  "(c \<noteq> Info \<longrightarrow> fst (snd (UserClient_call im c this w)) = this) \<and>
   (util_fetch (UserClient.client this) ''/me'' JUndefined w = (Inr (JObj kvs), w') \<and>
    get_prop (lookup kvs ''followers'') ''total'' = Inr followers_total \<longrightarrow>
      fst (snd (UserClient_call im Info this w)) =
        this\<lparr>UserClient.name := lookup kvs ''display_name'',
             UserClient.country := js_or (lookup kvs ''country'') (JStr ''unknown''),
             UserClient.id := lookup kvs ''id'',
             UserClient.email := js_or (lookup kvs ''email'') (JStr ''unknown''),
             UserClient.externalUrls := lookup kvs ''external_urls'',
             UserClient.totalFollowers := followers_total,
             UserClient.href := lookup kvs ''href'',
             UserClient.images := lookup kvs ''images'',
             UserClient.product := js_or (lookup kvs ''product'') (JStr ''unknown''),
             UserClient.uri := lookup kvs ''uri''\<rparr>)"
proof (intro conjI impI)
  assume "c \<noteq> Info"
  then show "fst (snd (UserClient_call im c this w)) = this"
    by (cases c) (simp_all add: unchanged_this)
next
  assume "util_fetch (UserClient.client this) ''/me'' JUndefined w = (Inr (JObj kvs), w') \<and>
    get_prop (lookup kvs ''followers'') ''total'' = Inr followers_total"
  then show "fst (snd (UserClient_call im Info this w)) =
        this\<lparr>UserClient.name := lookup kvs ''display_name'',
             UserClient.country := js_or (lookup kvs ''country'') (JStr ''unknown''),
             UserClient.id := lookup kvs ''id'',
             UserClient.email := js_or (lookup kvs ''email'') (JStr ''unknown''),
             UserClient.externalUrls := lookup kvs ''external_urls'',
             UserClient.totalFollowers := followers_total,
             UserClient.href := lookup kvs ''href'',
             UserClient.images := lookup kvs ''images'',
             UserClient.product := js_or (lookup kvs ''product'') (JStr ''unknown''),
             UserClient.uri := lookup kvs ''uri''\<rparr>"
    by (simp add: UserClient_info_def info_assignments_object)
qed

text \<open>
  C9 on concrete calls: followArtists on the online client and getTopArtists on the
  offline client change nothing; \<open>info()\<close> on the online client changes the name from
  the empty string to \<open>'Alice'\<close>.
\<close>

theorem only_info_assigns_witness:
  "FollowArtists [''a1''] \<noteq> Info \<and>
   fst (snd (UserClient_call suppressing (FollowArtists [''a1'']) online ())) = online \<and>
   fst (snd (UserClient_call suppressing (GetTopArtists None) offline ())) = offline \<and>
   util_fetch (UserClient.client online) ''/me'' JUndefined () = (Inr (JObj alice), ()) \<and>
   get_prop (lookup alice ''followers'') ''total'' = Inr (JNum 5) \<and>
   UserClient.name (fst (snd (UserClient_call suppressing Info online ()))) = JStr ''Alice'' \<and>
   UserClient.name online = JStr ''''"
proof -
  have fresh: "UserClient.name online = JStr ''''"
    by (simp add: online_def UserClient_constructor_def)
  from only_info_assigns
    [where c = "FollowArtists [''a1'']" and im = suppressing and this = online and w = "()"
       and kvs = alice and w' = "()" and followers_total = "JNum 5"]
    online_request alice_fields(1)
  have one: "fst (snd (UserClient_call suppressing (FollowArtists [''a1'']) online ())) = online"
    and two: "UserClient.name (fst (snd (UserClient_call suppressing Info online ()))) = JStr ''Alice''"
    by (simp_all add: alice_fields(2))
  from only_info_assigns
    [where c = "GetTopArtists None" and im = suppressing and this = offline and w = "()"]
  have three: "fst (snd (UserClient_call suppressing (GetTopArtists None) offline ())) = offline"
    by simp
  from one two three online_request alice_fields(1) fresh show ?thesis by simp
qed

end
